theory Spec2Isabelle
  imports Main "HOL-Library.Sublist"
begin

section \<open>JavaScript values\<close>

text \<open>
  The client reads server bodies with \<^verbatim>\<open>response.json()\<close>, so the values it handles
  are JSON values. The model covers the values in which every number is an integer of
  magnitude at most \<open>2^53\<close> (where a JavaScript number is exact and prints as its
  decimal numeral) and every string is made of code units below 256, one \<open>char\<close>
  each; a run of digits that \<^verbatim>\<open>parseInt\<close> reads is taken to denote such an integer
  too. Fractions, larger numbers, \<^verbatim>\<open>NaN\<close> and the infinities are outside the model.
  An object is the list of its members. \<^verbatim>\<open>undefined\<close> is the \<open>None\<close> of an option.
\<close>

datatype json =
    JNull
  | JBool bool
  | JNum int
  | JStr string
  | JArr "json list"
  | JObj "(string \<times> json) list"

text \<open>Truthiness, as \<^verbatim>\<open>!x\<close>, \<^verbatim>\<open>x || y\<close> and \<^verbatim>\<open>x ? a : b\<close> test it.\<close>

fun truthy :: "json \<Rightarrow> bool" where
  "truthy JNull = False"
| "truthy (JBool b) = b"
| "truthy (JNum n) = (n \<noteq> 0)"
| "truthy (JStr s) = (s \<noteq> [])"
| "truthy (JArr xs) = True"
| "truthy (JObj kvs) = True"

text \<open>\<^verbatim>\<open>x || d\<close> for a possibly undefined \<open>x\<close>.\<close>

definition js_or :: "json option \<Rightarrow> json \<Rightarrow> json" where
  "js_or x d = (case x of None \<Rightarrow> d | Some v \<Rightarrow> if truthy v then v else d)"

text \<open>\<^verbatim>\<open>x || d\<close> for an optional number: \<^verbatim>\<open>undefined\<close> and \<open>0\<close> are falsy.\<close>

definition num_or :: "int option \<Rightarrow> int \<Rightarrow> int" where
  "num_or x d = (case x of None \<Rightarrow> d | Some n \<Rightarrow> if n \<noteq> 0 then n else d)"

text \<open>\<^verbatim>\<open>x || d\<close> for an optional string: \<^verbatim>\<open>undefined\<close> and the empty string are falsy.\<close>

definition str_or :: "string option \<Rightarrow> string \<Rightarrow> string" where
  "str_or x d = (case x of None \<Rightarrow> d | Some s \<Rightarrow> if s \<noteq> [] then s else d)"

subsection \<open>Numbers and values as strings\<close>

definition digit_char :: "nat \<Rightarrow> char" where
  "digit_char d = ''0123456789'' ! d"

function show_nat :: "nat \<Rightarrow> string" where
  "show_nat n = (if n < 10 then [digit_char n] else show_nat (n div 10) @ [digit_char (n mod 10)])"
  by pat_completeness auto
termination
  by (relation "measure id") auto

declare show_nat.simps [simp del]

definition number_to_string :: "int \<Rightarrow> string" where
  "number_to_string i = (if i < 0 then CHR ''-'' # show_nat (nat (- i)) else show_nat (nat i))"

fun join_comma :: "string list \<Rightarrow> string" where
  "join_comma [] = []"
| "join_comma [s] = s"
| "join_comma (s # t # ss) = s @ '','' @ join_comma (t # ss)"

text \<open>The conversion of a value to a string, which a template literal, the \<^verbatim>\<open>Error\<close>
  constructor and \<^verbatim>\<open>parseInt\<close> apply to what they are given. It can throw a
  \<^verbatim>\<open>TypeError\<close>, which is the result \<open>None\<close>. An object prints through the
  \<^verbatim>\<open>toString\<close> it inherits, as \<^verbatim>\<open>[object Object]\<close>; a decoded object with a member
  of its own named \<^verbatim>\<open>toString\<close> hides the inherited function behind a value that
  cannot be called, and since \<^verbatim>\<open>valueOf\<close> never yields a primitive for an object the
  conversion throws. An array joins the conversions of its elements with commas, a
  \<^verbatim>\<open>null\<close> element printing as nothing, and throws when one of them throws.\<close>

fun js_to_string :: "json \<Rightarrow> string option" where
  "js_to_string JNull = Some ''null''"
| "js_to_string (JBool b) = Some (if b then ''true'' else ''false'')"
| "js_to_string (JNum n) = Some (number_to_string n)"
| "js_to_string (JStr s) = Some s"
| "js_to_string (JArr xs) =
     map_option join_comma
       (those (map (\<lambda>v. case v of JNull \<Rightarrow> Some [] | _ \<Rightarrow> js_to_string v) xs))"
| "js_to_string (JObj kvs) =
     (if map_of kvs ''toString'' \<noteq> None then None else Some ''[object Object]'')"

subsection \<open>\<^verbatim>\<open>parseInt(x, 10)\<close>\<close>

text \<open>The white space and line terminators among the code units below 256.\<close>

definition is_space :: "char \<Rightarrow> bool" where
  "is_space ch =
     (ch \<in> set [CHR 0x20, CHR 0x09, CHR 0x0A, CHR 0x0B, CHR 0x0C, CHR 0x0D, CHR 0xA0])"

definition is_digit :: "char \<Rightarrow> bool" where
  "is_digit ch = (ch \<in> set ''0123456789'')"

definition digit_val :: "char \<Rightarrow> nat" where
  "digit_val ch = of_char ch - 48"

definition digits_val :: "string \<Rightarrow> nat" where
  "digits_val ds = foldl (\<lambda>acc ch. 10 * acc + digit_val ch) 0 ds"

text \<open>Leading white space is skipped, one sign is read, then the longest run of decimal
  digits; no digit at all is \<^verbatim>\<open>NaN\<close>, here \<open>None\<close>.\<close>

definition parseInt10 :: "string \<Rightarrow> int option" where
  "parseInt10 s =
     (let s1 = dropWhile is_space s;
          neg = (case s1 of [] \<Rightarrow> False | ch # _ \<Rightarrow> ch = CHR ''-'');
          s2 = (case s1 of [] \<Rightarrow> [] | ch # r \<Rightarrow> if ch = CHR ''-'' \<or> ch = CHR ''+'' then r else s1);
          ds = takeWhile is_digit s2
      in if ds = [] then None
         else Some (if neg then - int (digits_val ds) else int (digits_val ds)))"

section \<open>The error classes (\<^verbatim>\<open>utils/errors.ts\<close>)\<close>

text \<open>
  One record for the class chain: every SDK error is a \<^verbatim>\<open>ScrapebitError\<close> with the
  fields of the base class; a subclass sets \<open>name\<close> and the fields of its own, which
  are \<open>None\<close> on the other classes. \<open>code\<close> is declared a string but the engine
  stores a server-sent value in it unconverted, so it is a JSON value here; likewise
  the two credit fields.
\<close>

record scrapebit_error =
  name :: string
  message :: string
  code :: json
  statusCode :: "int option"
  details :: "(string \<times> json) list option"
  field :: "string option"
  retryAfter :: "int option"
  creditsRequired :: "json option"
  creditsRemaining :: "json option"

text \<open>What a \<^verbatim>\<open>throw\<close> can carry: an SDK error object (\<^verbatim>\<open>instanceof ScrapebitError\<close>),
  or the runtime's own \<^verbatim>\<open>TypeError\<close>, which is not an SDK error.\<close>

datatype thrown = SdkError scrapebit_error | TypeError

text \<open>The constructors, over the parameter types they declare: a message is a string.
  Where the engine passes a server-sent value for a message, see \<open>throw_new\<close> below.\<close>

definition ScrapebitError ::
  "string \<Rightarrow> json \<Rightarrow> int option \<Rightarrow> (string \<times> json) list option \<Rightarrow> scrapebit_error" where
  "ScrapebitError msg cd sc dt =
     \<lparr>name = ''ScrapebitError'', message = msg, code = cd, statusCode = sc,
      details = dt, field = None, retryAfter = None,
      creditsRequired = None, creditsRemaining = None\<rparr>"

definition AuthenticationError :: "string \<Rightarrow> scrapebit_error" where
  "AuthenticationError msg =
     (ScrapebitError msg (JStr ''AUTHENTICATION_ERROR'') (Some 401) None)
       \<lparr>name := ''AuthenticationError''\<rparr>"

definition AuthorizationError :: "string \<Rightarrow> scrapebit_error" where
  "AuthorizationError msg =
     (ScrapebitError msg (JStr ''AUTHORIZATION_ERROR'') (Some 403) None)
       \<lparr>name := ''AuthorizationError''\<rparr>"

definition NotFoundError :: "string \<Rightarrow> string option \<Rightarrow> scrapebit_error" where
  "NotFoundError resource ident =
     (ScrapebitError
        (case ident of
           None \<Rightarrow> resource @ '' not found''
         | Some i \<Rightarrow> if i \<noteq> [] then resource @ '' with ID '' @ [CHR 0x27] @ i @ [CHR 0x27] @ '' not found''
                     else resource @ '' not found'')
        (JStr ''NOT_FOUND'') (Some 404) None)
       \<lparr>name := ''NotFoundError''\<rparr>"

definition ValidationError :: "string \<Rightarrow> string option \<Rightarrow> scrapebit_error" where
  "ValidationError msg fld =
     (ScrapebitError msg (JStr ''VALIDATION_ERROR'') (Some 400)
        (case fld of None \<Rightarrow> None
         | Some f \<Rightarrow> if f \<noteq> [] then Some [(''field'', JStr f)] else None))
       \<lparr>name := ''ValidationError'', field := fld\<rparr>"

definition RateLimitError :: "int option \<Rightarrow> scrapebit_error" where
  "RateLimitError ra =
     (ScrapebitError
        (case ra of None \<Rightarrow> ''Rate limit exceeded.''
         | Some n \<Rightarrow> if n \<noteq> 0
                     then ''Rate limit exceeded. Retry after '' @ number_to_string n @ '' seconds.''
                     else ''Rate limit exceeded.'')
        (JStr ''RATE_LIMIT_EXCEEDED'') (Some 429)
        (case ra of None \<Rightarrow> None
         | Some n \<Rightarrow> if n \<noteq> 0 then Some [(''retryAfter'', JNum n)] else None))
       \<lparr>name := ''RateLimitError'', retryAfter := ra\<rparr>"

text \<open>The engine passes server-sent values to this constructor, and its template literal
  converts them to strings, the required credits first: the constructor throws when a
  conversion does.\<close>

definition InsufficientCreditsError :: "json \<Rightarrow> json \<Rightarrow> thrown + scrapebit_error" where
  "InsufficientCreditsError required remaining =
     (case js_to_string required of
        None \<Rightarrow> Inl TypeError
      | Some rq \<Rightarrow>
          (case js_to_string remaining of
             None \<Rightarrow> Inl TypeError
           | Some rm \<Rightarrow>
               Inr ((ScrapebitError
                      (''Insufficient credits. Required: '' @ rq @ '', Remaining: '' @ rm)
                      (JStr ''INSUFFICIENT_CREDITS'') (Some 402)
                      (Some [(''creditsRequired'', required), (''creditsRemaining'', remaining)]))
                    \<lparr>name := ''InsufficientCreditsError'',
                     creditsRequired := Some required, creditsRemaining := Some remaining\<rparr>)))"

definition TimeoutError :: "int \<Rightarrow> scrapebit_error" where
  "TimeoutError timeoutMs =
     (ScrapebitError (''Request timed out after '' @ number_to_string timeoutMs @ ''ms'')
        (JStr ''TIMEOUT'') (Some 408) (Some [(''timeoutMs'', JNum timeoutMs)]))
       \<lparr>name := ''TimeoutError''\<rparr>"

definition NetworkError :: "string \<Rightarrow> scrapebit_error" where
  "NetworkError msg =
     (ScrapebitError msg (JStr ''NETWORK_ERROR'') None None)
       \<lparr>name := ''NetworkError''\<rparr>"

definition ServerError :: "int \<Rightarrow> string \<Rightarrow> scrapebit_error" where
  "ServerError sc msg =
     (ScrapebitError msg (JStr ''SERVER_ERROR'') (Some sc) None)
       \<lparr>name := ''ServerError''\<rparr>"

text \<open>\<^verbatim>\<open>throw new C(message)\<close> for a message that is a server-sent value: the first act
  of the base constructor, \<^verbatim>\<open>super(message)\<close>, converts the value to a string, and when
  that conversion throws, its \<^verbatim>\<open>TypeError\<close> is what is thrown.\<close>

definition throw_new :: "(string \<Rightarrow> scrapebit_error) \<Rightarrow> json \<Rightarrow> thrown" where
  "throw_new cls msg =
     (case js_to_string msg of None \<Rightarrow> TypeError | Some m \<Rightarrow> SdkError (cls m))"

section \<open>The HTTP client (\<^verbatim>\<open>utils/http.ts\<close>)\<close>

record ScrapebitConfig =
  cfg_baseUrl :: "string option"
  cfg_timeout :: "int option"
  cfg_retries :: "int option"
  cfg_headers :: "(string \<times> string) list option"

record HttpClient =
  apiKey :: string
  baseUrl :: string
  timeout :: int
  retries :: int
  customHeaders :: "(string \<times> string) list"

definition HttpClient_new :: "string \<Rightarrow> ScrapebitConfig \<Rightarrow> HttpClient" where
  "HttpClient_new key config =
     \<lparr>apiKey = key,
      baseUrl = str_or (cfg_baseUrl config) ''https://api.scrapebit.com/v1'',
      timeout = num_or (cfg_timeout config) 30000,
      retries = num_or (cfg_retries config) 3,
      customHeaders = (case cfg_headers config of None \<Rightarrow> [] | Some h \<Rightarrow> h)\<rparr>"

text \<open>The default value \<^verbatim>\<open>{}\<close> of the \<open>config\<close> parameter of both constructors.\<close>

definition default_config :: ScrapebitConfig where
  "default_config = \<lparr>cfg_baseUrl = None, cfg_timeout = None, cfg_retries = None, cfg_headers = None\<rparr>"

text \<open>The per-call options that steer the control flow. The URL, the verb, the
  headers and the serialised body are the same on every attempt of a call and no
  branch of the engine reads them, so they are not carried; the body is taken to be
  one that \<^verbatim>\<open>JSON.stringify\<close> accepts.\<close>

record RequestOptions =
  opt_timeout :: "int option"

text \<open>A completed HTTP response as the engine reads it: \<open>body\<close> is the result of
  \<^verbatim>\<open>response.json()\<close>, \<open>None\<close> when decoding fails, and \<^verbatim>\<open>response.ok\<close> is the
  platform's test for a status from 200 to 299.\<close>

record Response =
  status :: int
  statusText :: string
  body :: "json option"

definition ok :: "Response \<Rightarrow> bool" where
  "ok response = (200 \<le> status response \<and> status response \<le> 299)"

text \<open>How one call of \<^verbatim>\<open>fetch\<close> ends: with a response, with the rejection the abort
  timer causes, or with any other rejection and its message.\<close>

datatype fetch_outcome = Responded Response | AbortError | FetchError string

definition fetchWithTimeout :: "int \<Rightarrow> fetch_outcome \<Rightarrow> thrown + Response" where
  "fetchWithTimeout timeoutMs outcome =
     (case outcome of
        Responded response \<Rightarrow> Inr response
      | AbortError \<Rightarrow> Inl (SdkError (TimeoutError timeoutMs))
      | FetchError msg \<Rightarrow> Inl (SdkError (NetworkError msg)))"

text \<open>Reading a property \<^verbatim>\<open>v.k\<close>: \<^verbatim>\<open>null\<close> has no properties and the read throws;
  an object yields its member or \<^verbatim>\<open>undefined\<close>; the other values yield
  \<^verbatim>\<open>undefined\<close> for every name the engine reads (none of them is a built-in member
  of a string, an array, a number or a boolean).\<close>

definition js_get :: "json \<Rightarrow> string \<Rightarrow> thrown + json option" where
  "js_get v k =
     (case v of
        JNull \<Rightarrow> Inl TypeError
      | JObj kvs \<Rightarrow> Inr (map_of kvs k)
      | _ \<Rightarrow> Inr None)"

text \<open>\<^verbatim>\<open>parseInt(x as string, 10)\<close> converts its argument to a string first;
  \<^verbatim>\<open>undefined\<close> prints as a word with no digit.\<close>

definition js_parseInt :: "json option \<Rightarrow> thrown + int option" where
  "js_parseInt x =
     (case x of
        None \<Rightarrow> Inr None
      | Some v \<Rightarrow> (case js_to_string v of None \<Rightarrow> Inl TypeError | Some s \<Rightarrow> Inr (parseInt10 s)))"

text \<open>\<^verbatim>\<open>handleErrorResponse\<close> never returns: its value is what it throws.\<close>

definition handleErrorResponse :: "int \<Rightarrow> json \<Rightarrow> thrown" where
  "handleErrorResponse sc data =
     (case js_get data ''error'' of Inl e \<Rightarrow> e | Inr err \<Rightarrow>
     (case js_get data ''message'' of Inl e \<Rightarrow> e | Inr msg \<Rightarrow>
     (case js_get data ''code'' of Inl e \<Rightarrow> e | Inr cd \<Rightarrow>
       (let message = js_or err (js_or msg (JStr ''Unknown error'')) in
        if sc = 401 then throw_new AuthenticationError message
        else if sc = 402 then
          (case js_get data ''creditsRequired'' of Inl e \<Rightarrow> e | Inr required \<Rightarrow>
          (case js_get data ''creditsRemaining'' of Inl e \<Rightarrow> e | Inr remaining \<Rightarrow>
          (case InsufficientCreditsError (js_or required (JNum 1)) (js_or remaining (JNum 0)) of
             Inl e \<Rightarrow> e
           | Inr err \<Rightarrow> SdkError err)))
        else if sc = 403 then throw_new AuthorizationError message
        else if sc = 404 then SdkError (NotFoundError ''Resource'' None)
        else if sc = 429 then
          (case js_get data ''retryAfter'' of Inl e \<Rightarrow> e | Inr ra \<Rightarrow>
          (case js_parseInt ra of
             Inl e \<Rightarrow> e
           | Inr parsed \<Rightarrow>
               SdkError (RateLimitError
                 (case parsed of None \<Rightarrow> None
                  | Some n \<Rightarrow> if n \<noteq> 0 then Some n else None))))
        else if 500 \<le> sc then throw_new (ServerError sc) message
        else throw_new (\<lambda>m. ScrapebitError m (js_or cd (JStr ''API_ERROR'')) (Some sc) None)
               message))))"

text \<open>\<^verbatim>\<open>handleResponse\<close>. The last step tests \<^verbatim>\<open>'success' in data && 'data' in data\<close>:
  on an object that is a look-up of both keys, on an array both tests are false
  (neither name is an index or \<^verbatim>\<open>length\<close>), and on any other value the
  \<^verbatim>\<open>in\<close> operator throws a \<^verbatim>\<open>TypeError\<close>.\<close>

definition handleResponse :: "Response \<Rightarrow> thrown + json" where
  "handleResponse response =
     (case body response of
        None \<Rightarrow>
          if \<not> ok response
          then Inl (SdkError (ServerError (status response)
                 (''HTTP '' @ number_to_string (status response) @ '': '' @ statusText response)))
          else Inr (JObj [])
      | Some data \<Rightarrow>
          if \<not> ok response then Inl (handleErrorResponse (status response) data)
          else (case data of
                  JObj kvs \<Rightarrow>
                    (case map_of kvs ''success'' of
                       None \<Rightarrow> Inr data
                     | Some _ \<Rightarrow> (case map_of kvs ''data'' of None \<Rightarrow> Inr data | Some d \<Rightarrow> Inr d))
                | JArr _ \<Rightarrow> Inr data
                | _ \<Rightarrow> Inl TypeError))"

subsection \<open>The attempt loop of \<^verbatim>\<open>request\<close>\<close>

text \<open>What the loop does that an observer can count: a call of the transport for
  attempt \<open>i\<close>, and a sleep of so many milliseconds.\<close>

datatype event = Fetch nat | Sleep int

text \<open>The body of the \<^verbatim>\<open>try\<close> block: one transport call, then response handling.\<close>

definition try_attempt :: "int \<Rightarrow> fetch_outcome \<Rightarrow> thrown + json" where
  "try_attempt timeoutMs outcome =
     (case fetchWithTimeout timeoutMs outcome of
        Inl e \<Rightarrow> Inl e
      | Inr response \<Rightarrow> handleResponse response)"

text \<open>The first test of the \<^verbatim>\<open>catch\<close> block:
  \<^verbatim>\<open>error instanceof ScrapebitError && error.statusCode && error.statusCode < 500\<close>.\<close>

definition no_retry :: "thrown \<Rightarrow> bool" where
  "no_retry error =
     (case error of
        SdkError e \<Rightarrow> (case statusCode e of None \<Rightarrow> False | Some sc \<Rightarrow> sc \<noteq> 0 \<and> sc < 500)
      | TypeError \<Rightarrow> False)"

definition prepend :: "event list \<Rightarrow> event list \<times> 'a \<Rightarrow> event list \<times> 'a" where
  "prepend evs r = (evs @ fst r, snd r)"

text \<open>The \<^verbatim>\<open>for\<close> loop from \<open>attempt\<close> on, with the statement after it. The
  transport is given by what the call for each attempt index ends with. The result
  is the trace of the loop and what the call returns or throws.\<close>

function request_loop ::
  "HttpClient \<Rightarrow> int \<Rightarrow> (nat \<Rightarrow> fetch_outcome) \<Rightarrow> nat \<Rightarrow> thrown option
     \<Rightarrow> event list \<times> (thrown + json)" where
  "request_loop c timeoutMs net attempt lastError =
     (if int attempt \<le> retries c then
        (case try_attempt timeoutMs (net attempt) of
           Inr v \<Rightarrow> ([Fetch attempt], Inr v)
         | Inl error \<Rightarrow>
             if no_retry error then ([Fetch attempt], Inl error)
             else if int attempt = retries c then ([Fetch attempt], Inl error)
             else prepend [Fetch attempt, Sleep (min (1000 * 2 ^ attempt) 10000)]
                    (request_loop c timeoutMs net (Suc attempt) (Some error)))
      else ([], Inl (case lastError of
                       Some e \<Rightarrow> e
                     | None \<Rightarrow> SdkError (ScrapebitError ''Request failed after retries''
                                 (JStr ''SCRAPEBIT_ERROR'') None None))))"
  by pat_completeness auto
termination
  by (relation "measure (\<lambda>(c, t, net, attempt, le). nat (retries c + 1 - int attempt))") auto

declare request_loop.simps [simp del]

definition request ::
  "HttpClient \<Rightarrow> RequestOptions \<Rightarrow> (nat \<Rightarrow> fetch_outcome) \<Rightarrow> event list \<times> (thrown + json)" where
  "request c options net =
     request_loop c (num_or (opt_timeout options) (timeout c)) net 0 None"

text \<open>The number of transport calls in a trace.\<close>

definition attempts :: "event list \<Rightarrow> nat" where
  "attempts evs = length (filter (\<lambda>ev. case ev of Fetch _ \<Rightarrow> True | Sleep _ \<Rightarrow> False) evs)"

section \<open>The client facade\<close>

text \<open>The constructor of \<^verbatim>\<open>Scrapebit\<close>. A JavaScript caller can pass any value as the
  key (\<open>None\<close> is \<^verbatim>\<open>undefined\<close>). The constructor either throws or yields the
  instance, with the warnings it printed; the API modules of the instance all hold
  the one \<open>http\<close> engine.\<close>

record Scrapebit =
  version :: string
  http :: HttpClient

definition Scrapebit_new ::
  "json option \<Rightarrow> ScrapebitConfig \<Rightarrow> scrapebit_error + (string list \<times> Scrapebit)" where
  "Scrapebit_new key config =
     (if \<not> (case key of None \<Rightarrow> False | Some v \<Rightarrow> truthy v)
      then Inl (ValidationError ''API key is required'' None)
      else (case key of
              Some (JStr s) \<Rightarrow>
                Inr (if \<not> prefix ''sb_live_'' s
                     then [''Warning: API key does not start with '' @ [CHR 0x22] @ ''sb_live_'' @ [CHR 0x22] @ ''. ''
                           @ ''Make sure you are using a valid Scrapebit API key.'']
                     else [],
                     \<lparr>version = ''1.0.0'', http = HttpClient_new s config\<rparr>)
            | _ \<Rightarrow> Inl (ValidationError ''API key must be a string'' None)))"

section \<open>The attempt loop, step by step\<close>

lemma request_loop_exit:
  "\<not> int a \<le> retries c \<Longrightarrow>
   request_loop c t net a le =
     ([], Inl (case le of Some e \<Rightarrow> e
               | None \<Rightarrow> SdkError (ScrapebitError ''Request failed after retries''
                                     (JStr ''SCRAPEBIT_ERROR'') None None)))"
  by (subst request_loop.simps) simp

lemma request_loop_return:
  "int a \<le> retries c \<Longrightarrow> try_attempt t (net a) = Inr v \<Longrightarrow>
   request_loop c t net a le = ([Fetch a], Inr v)"
  by (subst request_loop.simps) simp

lemma request_loop_raise:
  "int a \<le> retries c \<Longrightarrow> try_attempt t (net a) = Inl e \<Longrightarrow>
   no_retry e \<or> int a = retries c \<Longrightarrow>
   request_loop c t net a le = ([Fetch a], Inl e)"
  by (subst request_loop.simps) auto

lemma request_loop_retry:
  "int a < retries c \<Longrightarrow> try_attempt t (net a) = Inl e \<Longrightarrow> \<not> no_retry e \<Longrightarrow>
   request_loop c t net a le =
     prepend [Fetch a, Sleep (min (1000 * 2 ^ a) 10000)]
       (request_loop c t net (Suc a) (Some e))"
  by (subst request_loop.simps) simp

lemma request_loop_lastError:
  "int a \<le> retries c \<Longrightarrow> request_loop c t net a le = request_loop c t net a le'"
  by (subst request_loop.simps, subst (2) request_loop.simps) simp

lemma request_loop_trace:
  "\<exists>n. a \<le> n \<and> (int a \<le> retries c \<longrightarrow> int n \<le> retries c) \<and>
     fst (request_loop c t net a le) =
       (if int a \<le> retries c
        then concat (map (\<lambda>i. [Fetch i, Sleep (min (1000 * 2 ^ i) 10000)]) [a..<n]) @ [Fetch n]
        else [])"
proof (induction c t net a le rule: request_loop.induct)
  case (1 c t net a le)
  show ?case
  proof (cases "int a \<le> retries c")
    case False
    then show ?thesis by (auto simp: request_loop_exit)
  next
    case inside: True
    show ?thesis
    proof (cases "try_attempt t (net a)")
      case (Inr v)
      with inside have "request_loop c t net a le = ([Fetch a], Inr v)"
        by (intro request_loop_return)
      with inside show ?thesis by (intro exI[of _ a]) simp
    next
      case (Inl e)
      show ?thesis
      proof (cases "no_retry e \<or> int a = retries c")
        case True
        with inside Inl have "request_loop c t net a le = ([Fetch a], Inl e)"
          by (intro request_loop_raise)
        with inside show ?thesis by (intro exI[of _ a]) simp
      next
        case False
        with inside have lt: "int a < retries c" by simp
        from False have nr: "\<not> no_retry e" by simp
        from "1.IH"[OF inside Inl] False
        obtain n where n: "Suc a \<le> n" "int n \<le> retries c"
          "fst (request_loop c t net (Suc a) (Some e)) =
             concat (map (\<lambda>i. [Fetch i, Sleep (min (1000 * 2 ^ i) 10000)]) [Suc a..<n]) @ [Fetch n]"
          using lt by auto
        have "a < n" using n(1) by simp
        then have up: "[a..<n] = a # [Suc a..<n]" by (simp add: upt_conv_Cons)
        show ?thesis
          using n inside
          by (intro exI[of _ n]) (simp add: request_loop_retry[where net=net and a=a, OF lt Inl nr] prepend_def up)
      qed
    qed
  qed
qed

lemma request_loop_skip:
  assumes fail: "\<forall>k. a \<le> k \<and> k < n \<longrightarrow> (\<exists>e. try_attempt t (net k) = Inl e \<and> \<not> no_retry e)"
    and n: "int n \<le> retries c" and an: "a \<le> n"
  shows "request_loop c t net a le =
           prepend (concat (map (\<lambda>i. [Fetch i, Sleep (min (1000 * 2 ^ i) 10000)]) [a..<n]))
             (request_loop c t net n le)"
  using an fail
proof (induction "n - a" arbitrary: a le)
  case 0
  then show ?case by (simp add: prepend_def)
next
  case (Suc d)
  then have lt: "a < n" by simp
  with n have lt': "int a < retries c" by simp
  from Suc.prems lt obtain e where e: "try_attempt t (net a) = Inl e" "\<not> no_retry e" by blast
  have d: "d = n - Suc a" using Suc.hyps(2) by simp
  have sa: "Suc a \<le> n" using lt by simp
  have rest: "request_loop c t net (Suc a) (Some e) =
      prepend (concat (map (\<lambda>i. [Fetch i, Sleep (min (1000 * 2 ^ i) 10000)]) [Suc a..<n]))
        (request_loop c t net n (Some e))"
    using Suc.hyps(1)[OF d sa] Suc.prems(2) by simp
  have up: "[a..<n] = a # [Suc a..<n]" using lt by (simp add: upt_conv_Cons)
  have "request_loop c t net n (Some e) = request_loop c t net n le"
    using n by (rule request_loop_lastError)
  then show ?case
    by (simp add: request_loop_retry[where net=net and a=a, OF lt' e] rest up prepend_def)
qed

lemma request_loop_origin:
  "snd (request_loop c t net a le) = Inl err \<Longrightarrow>
   (\<exists>k. try_attempt t (net k) = Inl err) \<or>
   (\<not> int a \<le> retries c \<and>
    err = (case le of Some e \<Rightarrow> e
           | None \<Rightarrow> SdkError (ScrapebitError ''Request failed after retries''
                                 (JStr ''SCRAPEBIT_ERROR'') None None)))"
proof (induction c t net a le rule: request_loop.induct)
  case (1 c t net a le)
  show ?case
  proof (cases "int a \<le> retries c")
    case False
    with "1.prems" show ?thesis by (simp add: request_loop_exit)
  next
    case inside: True
    show ?thesis
    proof (cases "try_attempt t (net a)")
      case (Inr v)
      with inside "1.prems" show ?thesis by (simp add: request_loop_return)
    next
      case (Inl e)
      show ?thesis
      proof (cases "no_retry e \<or> int a = retries c")
        case True
        with inside Inl have "request_loop c t net a le = ([Fetch a], Inl e)"
          by (intro request_loop_raise)
        with "1.prems" Inl show ?thesis by auto
      next
        case False
        with inside have lt: "int a < retries c" by simp
        from False have nr: "\<not> no_retry e" by simp
        have "snd (request_loop c t net (Suc a) (Some e)) = Inl err"
          using "1.prems" by (simp add: request_loop_retry[where net=net and a=a, OF lt Inl nr] prepend_def)
        from "1.IH"[OF inside Inl _ _ this] False lt
        show ?thesis by auto
      qed
    qed
  qed
qed

section \<open>Classifying one attempt\<close>

lemmas error_defs =
  ScrapebitError_def AuthenticationError_def AuthorizationError_def NotFoundError_def
  ValidationError_def RateLimitError_def TimeoutError_def NetworkError_def ServerError_def

lemma error_name [simp]:
  "name (ScrapebitError m cd sc dt) = ''ScrapebitError''"
  "name (AuthenticationError m) = ''AuthenticationError''"
  "name (AuthorizationError m) = ''AuthorizationError''"
  "name (NotFoundError rs i) = ''NotFoundError''"
  "name (ValidationError vm f) = ''ValidationError''"
  "name (RateLimitError ra) = ''RateLimitError''"
  "name (TimeoutError ms) = ''TimeoutError''"
  "name (NetworkError nm) = ''NetworkError''"
  "name (ServerError st m) = ''ServerError''"
  by (simp_all add: error_defs)

lemma error_statusCode [simp]:
  "statusCode (ScrapebitError m cd sc dt) = sc"
  "statusCode (AuthenticationError m) = Some 401"
  "statusCode (AuthorizationError m) = Some 403"
  "statusCode (NotFoundError rs i) = Some 404"
  "statusCode (ValidationError vm f) = Some 400"
  "statusCode (RateLimitError ra) = Some 429"
  "statusCode (TimeoutError ms) = Some 408"
  "statusCode (NetworkError nm) = None"
  "statusCode (ServerError st m) = Some st"
  by (simp_all add: error_defs)

lemma ServerError_fields [simp]:
  "message (ServerError st m) = m"
  "code (ServerError st m) = JStr ''SERVER_ERROR''"
  by (simp_all add: error_defs)

lemma InsufficientCreditsError_cases:
  "InsufficientCreditsError rq rm = Inl TypeError \<or>
   (\<exists>e. InsufficientCreditsError rq rm = Inr e \<and> name e = ''InsufficientCreditsError''
        \<and> statusCode e = Some 402)"
  by (simp add: InsufficientCreditsError_def ScrapebitError_def split: option.splits)

lemma throw_new_cases:
  "throw_new cls msg = TypeError \<or> (\<exists>m. throw_new cls msg = SdkError (cls m))"
  by (cases "js_to_string msg") (auto simp: throw_new_def)

lemma js_parseInt_cases:
  "js_parseInt x = Inl TypeError \<or> (\<exists>p. js_parseInt x = Inr p)"
  by (simp add: js_parseInt_def split: option.splits)

lemma js_get_null [simp]: "js_get JNull k = Inl TypeError"
  by (simp add: js_get_def)

lemma js_get_not_null: "d \<noteq> JNull \<Longrightarrow> \<exists>v. js_get d k = Inr v"
  by (cases d) (simp_all add: js_get_def)

lemma handleErrorResponse_null: "handleErrorResponse sc JNull = TypeError"
  by (simp add: handleErrorResponse_def)

text \<open>A decoded error body other than \<^verbatim>\<open>null\<close> is classified by the status alone, unless
  a conversion to a string throws on the way.\<close>

lemma handleErrorResponse_classified:
  assumes "d \<noteq> JNull"
  shows "handleErrorResponse sc d = TypeError \<or>
         (\<exists>e. handleErrorResponse sc d = SdkError e \<and> statusCode e = Some sc \<and>
              (name e = ''ServerError'' \<longleftrightarrow> 500 \<le> sc))"
proof -
  obtain err msg cd rq rm ra where g:
    "js_get d ''error'' = Inr err" "js_get d ''message'' = Inr msg" "js_get d ''code'' = Inr cd"
    "js_get d ''creditsRequired'' = Inr rq" "js_get d ''creditsRemaining'' = Inr rm"
    "js_get d ''retryAfter'' = Inr ra"
    using js_get_not_null[OF assms] by metis
  define m where "m = js_or err (js_or msg (JStr ''Unknown error''))"
  consider "sc = 401" | "sc = 402" | "sc = 403" | "sc = 404" | "sc = 429"
    | "sc \<notin> {401, 402, 403, 404, 429}" "500 \<le> sc"
    | "sc \<notin> {401, 402, 403, 404, 429}" "\<not> 500 \<le> sc"
    by auto
  then show ?thesis
  proof cases
    case 1
    with throw_new_cases[of AuthenticationError m] show ?thesis
      by (auto simp: handleErrorResponse_def g m_def)
  next
    case 2
    with InsufficientCreditsError_cases[of "js_or rq (JNum 1)" "js_or rm (JNum 0)"]
    show ?thesis
      by (auto simp: handleErrorResponse_def g)
  next
    case 3
    with throw_new_cases[of AuthorizationError m] show ?thesis
      by (auto simp: handleErrorResponse_def g m_def)
  next
    case 4
    then show ?thesis
      by (simp add: handleErrorResponse_def g)
  next
    case 5
    with js_parseInt_cases[of ra] show ?thesis
      by (auto simp: handleErrorResponse_def g)
  next
    case 6
    with throw_new_cases[of "ServerError sc" m] show ?thesis
      by (auto simp: handleErrorResponse_def g m_def)
  next
    case 7
    with throw_new_cases[of "\<lambda>m. ScrapebitError m (js_or cd (JStr ''API_ERROR'')) (Some sc) None" m]
    show ?thesis
      by (auto simp: handleErrorResponse_def g m_def)
  qed
qed

lemma handleErrorResponse_404:
  "d \<noteq> JNull \<Longrightarrow> handleErrorResponse 404 d = SdkError (NotFoundError ''Resource'' None)"
  using js_get_not_null[of d "''error''"] js_get_not_null[of d "''message''"]
    js_get_not_null[of d "''code''"]
  by (auto simp: handleErrorResponse_def Let_def)

lemma try_attempt_Responded: "try_attempt t (Responded r) = handleResponse r"
  by (simp add: try_attempt_def fetchWithTimeout_def)

lemma try_attempt_AbortError: "try_attempt t AbortError = Inl (SdkError (TimeoutError t))"
  by (simp add: try_attempt_def fetchWithTimeout_def)

lemma try_attempt_FetchError: "try_attempt t (FetchError m) = Inl (SdkError (NetworkError m))"
  by (simp add: try_attempt_def fetchWithTimeout_def)

lemma handleResponse_undecodable:
  "body r = None \<Longrightarrow>
   handleResponse r =
     (if ok r then Inr (JObj [])
      else Inl (SdkError (ServerError (status r)
             (''HTTP '' @ number_to_string (status r) @ '': '' @ statusText r))))"
  by (simp add: handleResponse_def)

lemma handleResponse_failure:
  "body r = Some d \<Longrightarrow> \<not> ok r \<Longrightarrow> handleResponse r = Inl (handleErrorResponse (status r) d)"
  by (simp add: handleResponse_def)

lemma no_retry_SdkError:
  "no_retry (SdkError e) \<longleftrightarrow> (\<exists>sc. statusCode e = Some sc \<and> sc \<noteq> 0 \<and> sc < 500)"
  by (simp add: no_retry_def split: option.splits)

lemma no_retry_TypeError [simp]: "\<not> no_retry TypeError"
  by (simp add: no_retry_def)

lemma default_client [simp]:
  "retries (HttpClient_new k default_config) = 3"
  "timeout (HttpClient_new k default_config) = 30000"
  by (simp_all add: HttpClient_new_def default_config_def num_or_def)

lemma request_no_option:
  "request c \<lparr>opt_timeout = None\<rparr> net = request_loop c (timeout c) net 0 None"
  by (simp add: request_def num_or_def)

lemma number_to_string_3_digits:
  "number_to_string 402 = ''402''" "number_to_string 403 = ''403''"
  "number_to_string 404 = ''404''" "number_to_string 400 = ''400''"
  "number_to_string 500 = ''500''" "number_to_string 503 = ''503''"
  by (simp_all add: number_to_string_def show_nat.simps digit_char_def)

section \<open>The retry decision\<close>

text \<open>At any attempt the loop reaches, a timeout is raised at once, whatever the number
  of attempts left; a failure of the transport that is not a timeout is retried after
  the wait, when an attempt is left.\<close>

lemma timeout_raised_at_once:
  assumes "int a \<le> retries c" "net a = AbortError"
  shows "request_loop c t net a le = ([Fetch a], Inl (SdkError (TimeoutError t)))"
proof -
  have "try_attempt t (net a) = Inl (SdkError (TimeoutError t))"
    by (simp add: assms(2) try_attempt_AbortError)
  moreover have "no_retry (SdkError (TimeoutError t))"
    by (simp add: no_retry_SdkError)
  ultimately show ?thesis
    using assms(1) by (intro request_loop_raise) auto
qed

lemma network_failure_retried:
  assumes "int a < retries c" "net a = FetchError m"
  shows "request_loop c t net a le =
           prepend [Fetch a, Sleep (min (1000 * 2 ^ a) 10000)]
             (request_loop c t net (Suc a) (Some (SdkError (NetworkError m))))"
proof -
  have "try_attempt t (net a) = Inl (SdkError (NetworkError m))"
    by (simp add: assms(2) try_attempt_FetchError)
  moreover have "\<not> no_retry (SdkError (NetworkError m))"
    by (simp add: no_retry_SdkError)
  ultimately show ?thesis
    using assms(1) by (intro request_loop_retry) auto
qed

text \<open>
  Claim C1 says that an attempt failing with a Timeout while attempts remain is retried.
  The guard of the \<^verbatim>\<open>catch\<close> block, written for the client errors a server answers
  with, throws every SDK error with a status code below 500, and \<^verbatim>\<open>TimeoutError\<close> is
  given the code 408. With the default three retries, a transport that times out is
  called once and the \<^verbatim>\<open>TimeoutError\<close> is raised with no wait; the other failure of
  the same transport call, the \<^verbatim>\<open>NetworkError\<close>, is retried three times.
\<close>

theorem timeout_not_retried:
  "retries (HttpClient_new ''sb_live_k'' default_config) = 3
   \<and> request (HttpClient_new ''sb_live_k'' default_config) \<lparr>opt_timeout = None\<rparr> (\<lambda>_. AbortError)
       = ([Fetch 0], Inl (SdkError (TimeoutError 30000)))
   \<and> statusCode (TimeoutError 30000) = Some 408
   \<and> request (HttpClient_new ''sb_live_k'' default_config) \<lparr>opt_timeout = None\<rparr>
         (\<lambda>_. FetchError ''socket hang up'')
       = ([Fetch 0, Sleep 1000, Fetch 1, Sleep 2000, Fetch 2, Sleep 4000, Fetch 3],
          Inl (SdkError (NetworkError ''socket hang up'')))"
proof -
  have n: "\<not> no_retry (SdkError (NetworkError ''socket hang up''))"
    by (simp add: no_retry_SdkError)
  have "request_loop (HttpClient_new ''sb_live_k'' default_config) 30000
          (\<lambda>_. FetchError ''socket hang up'') 0 None
        = ([Fetch 0, Sleep 1000, Fetch 1, Sleep 2000, Fetch 2, Sleep 4000, Fetch 3],
           Inl (SdkError (NetworkError ''socket hang up'')))"
    by (simp add: request_loop.simps try_attempt_FetchError n prepend_def)
  then show ?thesis
    by (simp add: request_no_option no_retry_SdkError try_attempt_AbortError
          request_loop_raise[where e = "SdkError (TimeoutError 30000)"])
qed

section \<open>The retry bound\<close>

lemma try_attempt_500:
  assumes "status r = 500"
  shows "\<exists>err. try_attempt t (Responded r) = Inl err \<and> \<not> no_retry err \<and>
           (err = TypeError \<or>
            (\<exists>e. err = SdkError e \<and> name e = ''ServerError'' \<and> statusCode e = Some 500))"
proof -
  have nok: "\<not> ok r" using assms by (simp add: ok_def)
  show ?thesis
  proof (cases "body r")
    case None
    with nok assms show ?thesis
      by (simp add: try_attempt_Responded handleResponse_undecodable no_retry_SdkError)
  next
    case (Some d)
    show ?thesis
    proof (cases "d = JNull")
      case True
      with Some nok show ?thesis
        by (simp add: try_attempt_Responded handleResponse_failure handleErrorResponse_null)
    next
      case False
      from handleErrorResponse_classified[OF False, of 500] Some nok assms
      show ?thesis
        by (auto simp: try_attempt_Responded handleResponse_failure no_retry_SdkError)
    qed
  qed
qed

lemma attempts_trace:
  "attempts (concat (map (\<lambda>i. [Fetch i, Sleep (f i)]) xs) @ [Fetch n]) = length xs + 1"
  by (induction xs) (simp_all add: attempts_def)

text \<open>With a retry count of zero or more, a server that answers 500 to every attempt is
  called for the attempt indices 0 to the retry count, with the backoff wait between two
  calls, and the call raises what the last attempt threw: a \<^verbatim>\<open>ServerError\<close> carrying
  500, or the \<^verbatim>\<open>TypeError\<close> of a body that cannot be read or printed.\<close>

lemma always_500_attempts:
  assumes server: "\<forall>k. \<exists>r. net k = Responded r \<and> status r = 500"
    and nonneg: "0 \<le> retries c"
  shows "fst (request c options net) =
           concat (map (\<lambda>i. [Fetch i, Sleep (min (1000 * 2 ^ i) 10000)]) [0..<nat (retries c)])
           @ [Fetch (nat (retries c))]"
    and "int (attempts (fst (request c options net))) = retries c + 1"
    and "snd (request c options net) = Inl TypeError \<or>
         (\<exists>e. snd (request c options net) = Inl (SdkError e)
             \<and> name e = ''ServerError'' \<and> statusCode e = Some 500)"
proof -
  define t where "t = num_or (opt_timeout options) (timeout c)"
  define n where "n = nat (retries c)"
  from nonneg have n: "int n = retries c" by (simp add: n_def)
  have fails: "\<exists>err. try_attempt t (net k) = Inl err \<and> \<not> no_retry err \<and>
           (err = TypeError \<or>
            (\<exists>e. err = SdkError e \<and> name e = ''ServerError'' \<and> statusCode e = Some 500))" for k
  proof -
    from server obtain r where "net k = Responded r" "status r = 500" by blast
    then show ?thesis using try_attempt_500[of r t] by simp
  qed
  have retryable: "\<forall>k. 0 \<le> k \<and> k < n \<longrightarrow> (\<exists>e. try_attempt t (net k) = Inl e \<and> \<not> no_retry e)"
    using fails by blast
  from fails[of n] obtain err where err: "try_attempt t (net n) = Inl err"
    "err = TypeError \<or> (\<exists>e. err = SdkError e \<and> name e = ''ServerError'' \<and> statusCode e = Some 500)"
    by blast
  have last: "request_loop c t net n None = ([Fetch n], Inl err)"
    using n err(1) by (intro request_loop_raise) auto
  have run: "request c options net =
      (concat (map (\<lambda>i. [Fetch i, Sleep (min (1000 * 2 ^ i) 10000)]) [0..<n]) @ [Fetch n],
       Inl err)"
    unfolding request_def t_def[symmetric]
    using request_loop_skip[where net = net and a = 0 and n = n and c = c and t = t and le = None,
        OF retryable] n last
    by (simp add: prepend_def)
  show "fst (request c options net) =
      concat (map (\<lambda>i. [Fetch i, Sleep (min (1000 * 2 ^ i) 10000)]) [0..<nat (retries c)])
      @ [Fetch (nat (retries c))]"
    by (simp add: run n_def)
  show "int (attempts (fst (request c options net))) = retries c + 1"
    using n by (simp add: run attempts_trace)
  show "snd (request c options net) = Inl TypeError \<or>
         (\<exists>e. snd (request c options net) = Inl (SdkError e)
             \<and> name e = ''ServerError'' \<and> statusCode e = Some 500)"
    using err(2) by (auto simp: run)
qed

text \<open>
  Claim C2 says that a server answering 500 to every attempt makes the call raise a
  Server error after retry count plus one attempts. With the default three retries and
  a server whose 500 carries the body \<^verbatim>\<open>null\<close>, the four attempts are made, but reading
  \<^verbatim>\<open>data.error\<close> throws a \<^verbatim>\<open>TypeError\<close> before the status is looked at, and the
  \<^verbatim>\<open>TypeError\<close> is what the call raises. The same happens when the error message of
  the body is an object that cannot be converted to a string.
\<close>

theorem always_500_null_body:
  "request (HttpClient_new ''k'' default_config) \<lparr>opt_timeout = None\<rparr>
     (\<lambda>_. Responded \<lparr>status = 500, statusText = ''Internal Server Error'', body = Some JNull\<rparr>)
     = ([Fetch 0, Sleep 1000, Fetch 1, Sleep 2000, Fetch 2, Sleep 4000, Fetch 3], Inl TypeError)
   \<and> request (HttpClient_new ''k'' default_config) \<lparr>opt_timeout = None\<rparr>
     (\<lambda>_. Responded \<lparr>status = 500, statusText = ''Internal Server Error'',
                      body = Some (JObj [(''error'', JObj [(''toString'', JNum 1)])])\<rparr>)
     = ([Fetch 0, Sleep 1000, Fetch 1, Sleep 2000, Fetch 2, Sleep 4000, Fetch 3], Inl TypeError)"
proof -
  have t: "try_attempt ms
             (Responded \<lparr>status = 500, statusText = ''Internal Server Error'', body = Some JNull\<rparr>)
           = Inl TypeError" for ms
    by (simp add: try_attempt_Responded handleResponse_failure ok_def handleErrorResponse_null)
  have u: "try_attempt ms
             (Responded \<lparr>status = 500, statusText = ''Internal Server Error'',
                      body = Some (JObj [(''error'', JObj [(''toString'', JNum 1)])])\<rparr>)
           = Inl TypeError" for ms
    by (simp add: try_attempt_Responded handleResponse_failure ok_def handleErrorResponse_def
          js_get_def js_or_def throw_new_def)
  have "request_loop (HttpClient_new ''k'' default_config) 30000
          (\<lambda>_. Responded \<lparr>status = 500, statusText = ''Internal Server Error'', body = Some JNull\<rparr>)
          0 None
        = ([Fetch 0, Sleep 1000, Fetch 1, Sleep 2000, Fetch 2, Sleep 4000, Fetch 3], Inl TypeError)"
    by (simp add: request_loop.simps t prepend_def)
  moreover have "request_loop (HttpClient_new ''k'' default_config) 30000
          (\<lambda>_. Responded \<lparr>status = 500, statusText = ''Internal Server Error'',
                      body = Some (JObj [(''error'', JObj [(''toString'', JNum 1)])])\<rparr>)
          0 None
        = ([Fetch 0, Sleep 1000, Fetch 1, Sleep 2000, Fetch 2, Sleep 4000, Fetch 3], Inl TypeError)"
    by (simp add: request_loop.simps u prepend_def)
  ultimately show ?thesis
    by (simp add: request_no_option)
qed

section \<open>Client errors are not retried\<close>

text \<open>At any attempt the loop reaches, a failure whose error carries a status code from
  400 to 499 is raised at once: that attempt is the last transport call and no wait
  follows.\<close>

lemma client_error_raised_at_once:
  assumes "int a \<le> retries c" "try_attempt t (net a) = Inl (SdkError e)"
    and "statusCode e = Some sc" "400 \<le> sc" "sc < 500"
  shows "request_loop c t net a le = ([Fetch a], Inl (SdkError e))"
proof -
  have "no_retry (SdkError e)" using assms(3-5) by (simp add: no_retry_SdkError)
  with assms(1,2) show ?thesis by (intro request_loop_raise) auto
qed

text \<open>A 404 on the first attempt whose body decodes to a value other than \<^verbatim>\<open>null\<close> is
  raised as a \<^verbatim>\<open>NotFoundError\<close> after that one attempt.\<close>

lemma not_found_decoded:
  assumes "0 \<le> retries c" "net 0 = Responded r" "status r = 404" "body r = Some d" "d \<noteq> JNull"
  shows "request c options net = ([Fetch 0], Inl (SdkError (NotFoundError ''Resource'' None)))"
proof -
  define t where "t = num_or (opt_timeout options) (timeout c)"
  have "\<not> ok r" using assms(3) by (simp add: ok_def)
  with assms have "try_attempt t (net 0) = Inl (SdkError (NotFoundError ''Resource'' None))"
    by (simp add: try_attempt_Responded handleResponse_failure handleErrorResponse_404)
  then have "request_loop c t net 0 None
      = ([Fetch 0], Inl (SdkError (NotFoundError ''Resource'' None)))"
    using assms(1) by (intro client_error_raised_at_once[where sc = 404]) simp_all
  then show ?thesis by (simp add: request_def t_def)
qed

text \<open>
  Claim C3 says that a 404 on the first attempt ends, after exactly one attempt, in a
  \<^verbatim>\<open>NotFoundError\<close>. When the body of the 404 does not decode as JSON (an HTML error
  page, say), the \<^verbatim>\<open>catch\<close> branch of \<^verbatim>\<open>handleResponse\<close> raises a \<^verbatim>\<open>ServerError\<close>
  carrying 404: one attempt, but not the error class of a 404. When the body is
  \<^verbatim>\<open>null\<close>, reading \<^verbatim>\<open>data.error\<close> throws a \<^verbatim>\<open>TypeError\<close>, which the loop retries:
  four attempts, and the \<^verbatim>\<open>TypeError\<close> is raised.
\<close>

theorem not_found_wrong_error:
  "request (HttpClient_new ''k'' default_config) \<lparr>opt_timeout = None\<rparr>
     (\<lambda>_. Responded \<lparr>status = 404, statusText = ''Not Found'', body = None\<rparr>)
     = ([Fetch 0], Inl (SdkError (ServerError 404 ''HTTP 404: Not Found'')))
   \<and> name (ServerError 404 ''HTTP 404: Not Found'') = ''ServerError''
   \<and> name (NotFoundError ''Resource'' None) = ''NotFoundError''
   \<and> request (HttpClient_new ''k'' default_config) \<lparr>opt_timeout = None\<rparr>
     (\<lambda>_. Responded \<lparr>status = 404, statusText = ''Not Found'', body = Some JNull\<rparr>)
     = ([Fetch 0, Sleep 1000, Fetch 1, Sleep 2000, Fetch 2, Sleep 4000, Fetch 3], Inl TypeError)"
proof -
  have "try_attempt 30000 (Responded \<lparr>status = 404, statusText = ''Not Found'', body = None\<rparr>)
        = Inl (SdkError (ServerError 404 ''HTTP 404: Not Found''))"
    by (simp add: try_attempt_Responded handleResponse_undecodable ok_def number_to_string_3_digits)
  then have a: "request_loop (HttpClient_new ''k'' default_config) 30000
      (\<lambda>_. Responded \<lparr>status = 404, statusText = ''Not Found'', body = None\<rparr>) 0 None
     = ([Fetch 0], Inl (SdkError (ServerError 404 ''HTTP 404: Not Found'')))"
    by (simp add: no_retry_SdkError
          request_loop_raise[where e = "SdkError (ServerError 404 ''HTTP 404: Not Found'')"])
  have t: "try_attempt ms (Responded \<lparr>status = 404, statusText = ''Not Found'', body = Some JNull\<rparr>)
           = Inl TypeError" for ms
    by (simp add: try_attempt_Responded handleResponse_failure ok_def handleErrorResponse_null)
  have b: "request_loop (HttpClient_new ''k'' default_config) 30000
      (\<lambda>_. Responded \<lparr>status = 404, statusText = ''Not Found'', body = Some JNull\<rparr>) 0 None
     = ([Fetch 0, Sleep 1000, Fetch 1, Sleep 2000, Fetch 2, Sleep 4000, Fetch 3], Inl TypeError)"
    by (simp add: request_loop.simps t prepend_def)
  show ?thesis
    using a b by (simp add: request_no_option)
qed

section \<open>Backoff\<close>

text \<open>
  Claim C4. The trace of every call is a run of transport calls for the attempt indices
  \<open>0, 1, \<dots>, n\<close> in which each call but the last is followed by exactly one wait, of
  \<open>min (1000 * 2 ^ i) 10000\<close> milliseconds after the failed attempt \<open>i\<close>. So nothing is
  waited before the first attempt, every retry is preceded by the wait for the attempt
  that just failed, and no wait follows the last attempt. (With a negative retry count
  the trace is empty.)
\<close>

theorem backoff_before_every_retry:
  "\<exists>n. fst (request c options net) =
        (if 0 \<le> retries c
         then concat (map (\<lambda>i. [Fetch i, Sleep (min (1000 * 2 ^ i) 10000)]) [0..<n]) @ [Fetch n]
         else [])"
proof -
  from request_loop_trace[of 0 c "num_or (opt_timeout options) (timeout c)" net None]
  obtain n where "fst (request_loop c (num_or (opt_timeout options) (timeout c)) net 0 None) =
       (if int 0 \<le> retries c
        then concat (map (\<lambda>i. [Fetch i, Sleep (min (1000 * 2 ^ i) 10000)]) [0..<n]) @ [Fetch n]
        else [])"
    by blast
  then show ?thesis
    by (intro exI[of _ n]) (simp add: request_def)
qed

text \<open>With five retries and a transport that always fails, the waits are
  1000, 2000, 4000, 8000 and 10000 milliseconds.\<close>

theorem backoff_before_every_retry_witness:
  "(\<exists>n. fst (request (HttpClient_new ''k'' (default_config\<lparr>cfg_retries := Some 5\<rparr>))
              \<lparr>opt_timeout = None\<rparr> (\<lambda>_. FetchError ''down'')) =
        concat (map (\<lambda>i. [Fetch i, Sleep (min (1000 * 2 ^ i) 10000)]) [0..<n]) @ [Fetch n])
   \<and> fst (request (HttpClient_new ''k'' (default_config\<lparr>cfg_retries := Some 5\<rparr>))
              \<lparr>opt_timeout = None\<rparr> (\<lambda>_. FetchError ''down'')) =
       [Fetch 0, Sleep 1000, Fetch 1, Sleep 2000, Fetch 2, Sleep 4000, Fetch 3, Sleep 8000,
        Fetch 4, Sleep 10000, Fetch 5]"
proof -
  have r: "retries (HttpClient_new ''k'' (default_config\<lparr>cfg_retries := Some 5\<rparr>)) = 5"
    by (simp add: HttpClient_new_def default_config_def num_or_def)
  have t: "try_attempt ms (FetchError ''down'') = Inl (SdkError (NetworkError ''down''))" for ms
    by (rule try_attempt_FetchError)
  have n: "\<not> no_retry (SdkError (NetworkError ''down''))"
    by (simp add: no_retry_SdkError)
  have run: "fst (request (HttpClient_new ''k'' (default_config\<lparr>cfg_retries := Some 5\<rparr>))
              \<lparr>opt_timeout = None\<rparr> (\<lambda>_. FetchError ''down'')) =
       [Fetch 0, Sleep 1000, Fetch 1, Sleep 2000, Fetch 2, Sleep 4000, Fetch 3, Sleep 8000,
        Fetch 4, Sleep 10000, Fetch 5]"
    by (simp add: request_no_option request_loop.simps r t n prepend_def)
  show ?thesis
    using backoff_before_every_retry[of "HttpClient_new ''k'' (default_config\<lparr>cfg_retries := Some 5\<rparr>)"
        "\<lparr>opt_timeout = None\<rparr>" "\<lambda>_. FetchError ''down''"] r run
    by simp
qed

section \<open>The status code of a server error\<close>

lemma try_attempt_ServerError:
  assumes "try_attempt t out = Inl (SdkError e)" "name e = ''ServerError''"
  shows "\<exists>r. out = Responded r \<and> \<not> ok r \<and> statusCode e = Some (status r)
             \<and> (500 \<le> status r \<or> body r = None)"
proof (cases out)
  case AbortError
  with assms show ?thesis by (auto simp: try_attempt_AbortError)
next
  case (FetchError m)
  with assms show ?thesis by (auto simp: try_attempt_FetchError)
next
  case (Responded r)
  with assms have hr: "handleResponse r = Inl (SdkError e)"
    by (simp add: try_attempt_Responded)
  show ?thesis
  proof (cases "body r")
    case None
    with hr assms(2) Responded show ?thesis
      by (auto simp: handleResponse_undecodable split: if_splits)
  next
    case (Some d)
    show ?thesis
    proof (cases "ok r")
      case True
      with hr Some show ?thesis
        by (auto simp: handleResponse_def split: json.splits option.splits)
    next
      case False
      with hr Some have he: "handleErrorResponse (status r) d = SdkError e"
        by (simp add: handleResponse_failure)
      then have "d \<noteq> JNull" by (auto simp: handleErrorResponse_null)
      from handleErrorResponse_classified[OF this, of "status r"] he assms(2)
      have "statusCode e = Some (status r) \<and> 500 \<le> status r" by auto
      with False Responded show ?thesis by simp
    qed
  qed
qed

text \<open>Every \<^verbatim>\<open>ServerError\<close> a call raises comes from a response of one of its attempts
  whose status is not a success status, and carries that status: 500 or more when the
  body decoded, any status outside 200 to 299 when it did not.\<close>

lemma server_error_origin:
  assumes "snd (request c options net) = Inl (SdkError e)" and "name e = ''ServerError''"
  shows "\<exists>k r. net k = Responded r \<and> \<not> ok r \<and> statusCode e = Some (status r)
               \<and> (500 \<le> status r \<or> body r = None)"
proof -
  define t where "t = num_or (opt_timeout options) (timeout c)"
  from assms(1) have "snd (request_loop c t net 0 None) = Inl (SdkError e)"
    by (simp add: request_def t_def)
  from request_loop_origin[OF this] assms(2)
  obtain k where "try_attempt t (net k) = Inl (SdkError e)"
    by auto
  from try_attempt_ServerError[OF this assms(2)]
  show ?thesis by blast
qed

text \<open>
  Claim C5 says that a \<^verbatim>\<open>ServerError\<close> always carries a status code of 500 or more,
  as the class is documented and as \<^verbatim>\<open>handleErrorResponse\<close> guards it. A 403 whose body
  does not decode is raised by the \<^verbatim>\<open>catch\<close> branch of \<^verbatim>\<open>handleResponse\<close> as a
  \<^verbatim>\<open>ServerError\<close> that carries 403, where the same status with a decoded body is an
  \<^verbatim>\<open>AuthorizationError\<close>.
\<close>

theorem server_error_below_500:
  "request (HttpClient_new ''k'' default_config) \<lparr>opt_timeout = None\<rparr>
     (\<lambda>_. Responded \<lparr>status = 403, statusText = ''Forbidden'', body = None\<rparr>)
     = ([Fetch 0], Inl (SdkError (ServerError 403 ''HTTP 403: Forbidden'')))
   \<and> name (ServerError 403 ''HTTP 403: Forbidden'') = ''ServerError''
   \<and> statusCode (ServerError 403 ''HTTP 403: Forbidden'') = Some 403
   \<and> request (HttpClient_new ''k'' default_config) \<lparr>opt_timeout = None\<rparr>
     (\<lambda>_. Responded \<lparr>status = 403, statusText = ''Forbidden'', body = Some (JObj [])\<rparr>)
     = ([Fetch 0], Inl (SdkError (AuthorizationError ''Unknown error'')))"
proof -
  have "try_attempt 30000 (Responded \<lparr>status = 403, statusText = ''Forbidden'', body = None\<rparr>)
        = Inl (SdkError (ServerError 403 ''HTTP 403: Forbidden''))"
    by (simp add: try_attempt_Responded handleResponse_undecodable ok_def number_to_string_3_digits)
  then have a: "request_loop (HttpClient_new ''k'' default_config) 30000
      (\<lambda>_. Responded \<lparr>status = 403, statusText = ''Forbidden'', body = None\<rparr>) 0 None
     = ([Fetch 0], Inl (SdkError (ServerError 403 ''HTTP 403: Forbidden'')))"
    by (simp add: no_retry_SdkError
          request_loop_raise[where e = "SdkError (ServerError 403 ''HTTP 403: Forbidden'')"])
  have "try_attempt 30000 (Responded \<lparr>status = 403, statusText = ''Forbidden'', body = Some (JObj [])\<rparr>)
        = Inl (SdkError (AuthorizationError ''Unknown error''))"
    by (simp add: try_attempt_Responded handleResponse_failure ok_def handleErrorResponse_def
          js_get_def js_or_def throw_new_def)
  then have b: "request_loop (HttpClient_new ''k'' default_config) 30000
      (\<lambda>_. Responded \<lparr>status = 403, statusText = ''Forbidden'', body = Some (JObj [])\<rparr>) 0 None
     = ([Fetch 0], Inl (SdkError (AuthorizationError ''Unknown error'')))"
    by (simp add: no_retry_SdkError
          request_loop_raise[where e = "SdkError (AuthorizationError ''Unknown error'')"])
  show ?thesis
    using a b by (simp add: request_no_option)
qed

section \<open>Unwrapping the envelope\<close>

text \<open>What \<^verbatim>\<open>handleResponse\<close> returns for a success status and a body that decodes to an
  object or an array: the member \<open>data\<close> of an object that has both keys, and the
  decoded value itself otherwise.\<close>

lemma handleResponse_object:
  assumes "ok r" "body r = Some (JObj kvs)"
  shows "handleResponse r =
           (if map_of kvs ''success'' \<noteq> None \<and> map_of kvs ''data'' \<noteq> None
            then Inr (the (map_of kvs ''data'')) else Inr (JObj kvs))"
  using assms by (auto simp: handleResponse_def split: option.splits)

lemma handleResponse_array:
  assumes "ok r" "body r = Some (JArr xs)"
  shows "handleResponse r = Inr (JArr xs)"
  using assms by (simp add: handleResponse_def)

text \<open>
  Claim C6 says that a 2xx body that decodes to a value without the two envelope keys
  is returned unchanged. For a body that decodes to a number (or a string, a boolean or
  \<^verbatim>\<open>null\<close>) the test \<^verbatim>\<open>'success' in data\<close> throws a \<^verbatim>\<open>TypeError\<close>; the loop takes it
  for a transient failure, so with the default three retries the transport is called four
  times, with the waits between, and the \<^verbatim>\<open>TypeError\<close> is raised in place of the
  value.
\<close>

theorem primitive_body_type_error:
  "handleResponse \<lparr>status = 200, statusText = ''OK'', body = Some (JNum 42)\<rparr> = Inl TypeError
   \<and> handleResponse \<lparr>status = 200, statusText = ''OK'', body = Some JNull\<rparr> = Inl TypeError
   \<and> request (HttpClient_new ''k'' default_config) \<lparr>opt_timeout = None\<rparr>
       (\<lambda>_. Responded \<lparr>status = 200, statusText = ''OK'', body = Some (JNum 42)\<rparr>)
     = ([Fetch 0, Sleep 1000, Fetch 1, Sleep 2000, Fetch 2, Sleep 4000, Fetch 3], Inl TypeError)"
proof -
  have h: "handleResponse \<lparr>status = 200, statusText = ''OK'', body = Some (JNum 42)\<rparr> = Inl TypeError"
    by (simp add: handleResponse_def ok_def)
  have h0: "handleResponse \<lparr>status = 200, statusText = ''OK'', body = Some JNull\<rparr> = Inl TypeError"
    by (simp add: handleResponse_def ok_def)
  have t: "try_attempt ms (Responded \<lparr>status = 200, statusText = ''OK'', body = Some (JNum 42)\<rparr>)
           = Inl TypeError" for ms
    by (simp add: try_attempt_Responded h)
  have "request (HttpClient_new ''k'' default_config) \<lparr>opt_timeout = None\<rparr>
       (\<lambda>_. Responded \<lparr>status = 200, statusText = ''OK'', body = Some (JNum 42)\<rparr>)
     = ([Fetch 0, Sleep 1000, Fetch 1, Sleep 2000, Fetch 2, Sleep 4000, Fetch 3], Inl TypeError)"
    by (simp add: request_no_option request_loop.simps t prepend_def)
  with h h0 show ?thesis by simp
qed

section \<open>Bodies that do not decode\<close>




section \<open>Insufficient credits\<close>

text \<open>At any attempt the loop reaches, a 402 response whose decoded body yields
  \<^verbatim>\<open>undefined\<close> for both \<^verbatim>\<open>creditsRequired\<close> and \<^verbatim>\<open>creditsRemaining\<close> makes the call
  raise, at that attempt and with no retry, the \<^verbatim>\<open>InsufficientCreditsError\<close> built from
  1 and 0.\<close>

lemma insufficient_credits_default:
  assumes "int a \<le> retries c" and "net a = Responded r" and "status r = 402"
    and "body r = Some d"
    and "js_get d ''creditsRequired'' = Inr None" and "js_get d ''creditsRemaining'' = Inr None"
  shows "\<exists>e. request_loop c t net a le = ([Fetch a], Inl (SdkError e))
           \<and> name e = ''InsufficientCreditsError'' \<and> statusCode e = Some 402
           \<and> creditsRequired e = Some (JNum 1) \<and> creditsRemaining e = Some (JNum 0)
           \<and> message e = ''Insufficient credits. Required: 1, Remaining: 0''"
proof -
  have nn: "d \<noteq> JNull" using assms(5) by auto
  obtain err msg cd where g: "js_get d ''error'' = Inr err" "js_get d ''message'' = Inr msg"
    "js_get d ''code'' = Inr cd"
    using js_get_not_null[OF nn] by metis
  obtain e where e: "InsufficientCreditsError (JNum 1) (JNum 0) = Inr e"
    "name e = ''InsufficientCreditsError''" "statusCode e = Some 402"
    "creditsRequired e = Some (JNum 1)" "creditsRemaining e = Some (JNum 0)"
    "message e = ''Insufficient credits. Required: 1, Remaining: 0''"
    by (simp add: InsufficientCreditsError_def ScrapebitError_def number_to_string_def
          show_nat.simps digit_char_def)
  have he: "handleErrorResponse 402 d = SdkError e"
    by (simp add: handleErrorResponse_def g assms(5,6) js_or_def e(1))
  have "\<not> ok r" using assms(3) by (simp add: ok_def)
  then have ta: "try_attempt t (net a) = Inl (SdkError e)"
    using assms(2,3,4) he by (simp add: try_attempt_Responded handleResponse_failure)
  have "no_retry (SdkError e)"
    by (simp add: no_retry_SdkError e(3))
  with ta have "request_loop c t net a le = ([Fetch a], Inl (SdkError e))"
    using assms(1) by (intro request_loop_raise) auto
  with e show ?thesis by blast
qed

text \<open>
  Claim C8 says that every 402 whose decoded body lacks the two credit fields is raised
  as an \<^verbatim>\<open>InsufficientCreditsError\<close> with the values 1 and 0. The body \<^verbatim>\<open>null\<close> decodes
  and has neither field, but \<^verbatim>\<open>handleErrorResponse\<close> reads \<^verbatim>\<open>data.error\<close> before it
  looks at the status, which throws a \<^verbatim>\<open>TypeError\<close>; the loop retries it, so with the
  default three retries the transport is called four times and the \<^verbatim>\<open>TypeError\<close> is
  raised. The body \<^verbatim>\<open>{}\<close> is handled as claimed.
\<close>

theorem insufficient_credits_null_body:
  "request (HttpClient_new ''k'' default_config) \<lparr>opt_timeout = None\<rparr>
     (\<lambda>_. Responded \<lparr>status = 402, statusText = ''Payment Required'', body = Some JNull\<rparr>)
     = ([Fetch 0, Sleep 1000, Fetch 1, Sleep 2000, Fetch 2, Sleep 4000, Fetch 3], Inl TypeError)
   \<and> (\<exists>e. request (HttpClient_new ''k'' default_config) \<lparr>opt_timeout = None\<rparr>
          (\<lambda>_. Responded \<lparr>status = 402, statusText = ''Payment Required'', body = Some (JObj [])\<rparr>)
          = ([Fetch 0], Inl (SdkError e))
        \<and> name e = ''InsufficientCreditsError''
        \<and> creditsRequired e = Some (JNum 1) \<and> creditsRemaining e = Some (JNum 0))"
proof -
  have t: "try_attempt ms
      (Responded \<lparr>status = 402, statusText = ''Payment Required'', body = Some JNull\<rparr>)
      = Inl TypeError" for ms
    by (simp add: try_attempt_Responded handleResponse_failure ok_def handleErrorResponse_null)
  have a: "request_loop (HttpClient_new ''k'' default_config) 30000
      (\<lambda>_. Responded \<lparr>status = 402, statusText = ''Payment Required'', body = Some JNull\<rparr>) 0 None
     = ([Fetch 0, Sleep 1000, Fetch 1, Sleep 2000, Fetch 2, Sleep 4000, Fetch 3], Inl TypeError)"
    by (simp add: request_loop.simps t prepend_def)
  have b: "\<exists>e. request_loop (HttpClient_new ''k'' default_config) 30000
          (\<lambda>_. Responded \<lparr>status = 402, statusText = ''Payment Required'', body = Some (JObj [])\<rparr>)
          0 None
          = ([Fetch 0], Inl (SdkError e))
        \<and> name e = ''InsufficientCreditsError''
        \<and> creditsRequired e = Some (JNum 1) \<and> creditsRemaining e = Some (JNum 0)"
    using insufficient_credits_default[where a = 0 and c = "HttpClient_new ''k'' default_config"
        and t = 30000 and le = None and d = "JObj []"
        and r = "\<lparr>status = 402, statusText = ''Payment Required'', body = Some (JObj [])\<rparr>"
        and net = "\<lambda>_. Responded \<lparr>status = 402, statusText = ''Payment Required'', body = Some (JObj [])\<rparr>"]
    by (auto simp: js_get_def)
  from a b show ?thesis by (simp add: request_no_option)
qed

section \<open>Validation of the key at construction\<close>

text \<open>
  Claim C9 says that every key that is not a string is refused with the message
  \<^verbatim>\<open>API key must be a string\<close>. The test \<^verbatim>\<open>!apiKey\<close> comes first, so a falsy key that
  is not a string, such as \<^verbatim>\<open>undefined\<close>, \<^verbatim>\<open>null\<close> or \<open>0\<close>, is refused with the
  message \<^verbatim>\<open>API key is required\<close>.
\<close>

theorem api_key_validation_counterexample:
  "Scrapebit_new None default_config = Inl (ValidationError ''API key is required'' None)
   \<and> Scrapebit_new (Some JNull) default_config = Inl (ValidationError ''API key is required'' None)
   \<and> Scrapebit_new (Some (JNum 0)) default_config = Inl (ValidationError ''API key is required'' None)
   \<and> message (ValidationError ''API key is required'' None) \<noteq> ''API key must be a string''"
  by (simp add: Scrapebit_new_def ValidationError_def ScrapebitError_def)

text \<open>
  Claim C9, as the code has it. The constructor takes the key and the configuration
  only, so whatever it does happens before any transport call. A falsy key (the empty
  string, \<^verbatim>\<open>undefined\<close>, \<^verbatim>\<open>null\<close>, \<open>0\<close>, \<^verbatim>\<open>false\<close>) is refused with a
  \<^verbatim>\<open>ValidationError\<close> whose message is \<^verbatim>\<open>API key is required\<close>; a truthy key that is not
  a string is refused with a \<^verbatim>\<open>ValidationError\<close> whose message is
  \<^verbatim>\<open>API key must be a string\<close>; in both cases no instance, and so no engine, is made. A
  non-empty string is accepted and the engine is built from it.
\<close>

theorem api_key_validation:
  "Scrapebit_new (Some (JStr [])) config = Inl (ValidationError ''API key is required'' None)
   \<and> (key = None \<or> (\<exists>v. key = Some v \<and> \<not> truthy v) \<longrightarrow>
        Scrapebit_new key config = Inl (ValidationError ''API key is required'' None))
   \<and> (key = Some v \<and> truthy v \<and> (\<forall>s. v \<noteq> JStr s) \<longrightarrow>
        Scrapebit_new key config = Inl (ValidationError ''API key must be a string'' None))
   \<and> (s \<noteq> [] \<longrightarrow> (\<exists>w. Scrapebit_new (Some (JStr s)) config =
                          Inr (w, \<lparr>version = ''1.0.0'', http = HttpClient_new s config\<rparr>)))
   \<and> name (ValidationError m None) = ''ValidationError''
   \<and> message (ValidationError m None) = m
   \<and> statusCode (ValidationError m None) = Some 400"
proof (intro conjI impI)
  show "Scrapebit_new (Some (JStr [])) config = Inl (ValidationError ''API key is required'' None)"
    by (simp add: Scrapebit_new_def)
  show "Scrapebit_new key config = Inl (ValidationError ''API key is required'' None)"
    if "key = None \<or> (\<exists>v. key = Some v \<and> \<not> truthy v)"
    using that by (auto simp: Scrapebit_new_def)
  show "Scrapebit_new key config = Inl (ValidationError ''API key must be a string'' None)"
    if "key = Some v \<and> truthy v \<and> (\<forall>s. v \<noteq> JStr s)"
    using that by (cases v) (simp_all add: Scrapebit_new_def)
  show "\<exists>w. Scrapebit_new (Some (JStr s)) config =
          Inr (w, \<lparr>version = ''1.0.0'', http = HttpClient_new s config\<rparr>)"
    if "s \<noteq> []"
    using that by (simp add: Scrapebit_new_def)
  show "name (ValidationError m None) = ''ValidationError''" by simp
  show "message (ValidationError m None) = m"
    by (simp add: ValidationError_def ScrapebitError_def)
  show "statusCode (ValidationError m None) = Some 400" by simp
qed

theorem api_key_validation_witness:
  "Scrapebit_new (Some (JStr [])) default_config = Inl (ValidationError ''API key is required'' None)
   \<and> Scrapebit_new (Some (JBool False)) default_config
       = Inl (ValidationError ''API key is required'' None)
   \<and> Scrapebit_new (Some (JNum 12345)) default_config
       = Inl (ValidationError ''API key must be a string'' None)
   \<and> (\<exists>w. Scrapebit_new (Some (JStr ''sb_live_abc'')) default_config
            = Inr (w, \<lparr>version = ''1.0.0'', http = HttpClient_new ''sb_live_abc'' default_config\<rparr>))
   \<and> message (ValidationError ''API key must be a string'' None) = ''API key must be a string''"
  using api_key_validation[where key = "Some (JBool False)" and config = default_config
      and v = "JNum 12345" and s = "''sb_live_abc''" and m = "''API key must be a string''"]
    api_key_validation[where key = "Some (JNum 12345)" and config = default_config
      and v = "JNum 12345" and s = "''sb_live_abc''" and m = "''API key must be a string''"]
  by simp

section \<open>Falsy configuration values\<close>

text \<open>
  Claim C10. A configured timeout of 0 gives the engine the timeout 30000, and a
  configured retry count of 0 gives it 3 retries, as a missing value does; whatever the
  configuration, the engine's timeout and retry count are not 0. A per-call timeout of 0
  runs the call with the engine's own timeout, as a missing per-call timeout does, and
  every call of a constructed engine runs with a timeout that is not 0.
\<close>

theorem falsy_config_defaults:
  "timeout (HttpClient_new key (config\<lparr>cfg_timeout := Some 0\<rparr>)) = 30000
   \<and> retries (HttpClient_new key (config\<lparr>cfg_retries := Some 0\<rparr>)) = 3
   \<and> timeout (HttpClient_new key (config\<lparr>cfg_timeout := None\<rparr>)) = 30000
   \<and> retries (HttpClient_new key (config\<lparr>cfg_retries := None\<rparr>)) = 3
   \<and> timeout (HttpClient_new key config) \<noteq> 0
   \<and> retries (HttpClient_new key config) \<noteq> 0
   \<and> request c (options\<lparr>opt_timeout := Some 0\<rparr>) net = request_loop c (timeout c) net 0 None
   \<and> request c (options\<lparr>opt_timeout := Some 0\<rparr>) net = request c (options\<lparr>opt_timeout := None\<rparr>) net
   \<and> (\<exists>ms. ms \<noteq> 0 \<and> request (HttpClient_new key config) options net
                      = request_loop (HttpClient_new key config) ms net 0 None)"
proof -
  have t0: "timeout (HttpClient_new key config) \<noteq> 0"
    by (simp add: HttpClient_new_def num_or_def split: option.splits)
  have "num_or (opt_timeout options) (timeout (HttpClient_new key config)) \<noteq> 0"
    using t0 by (simp add: num_or_def split: option.splits)
  then have ex: "\<exists>ms. ms \<noteq> 0 \<and> request (HttpClient_new key config) options net
                      = request_loop (HttpClient_new key config) ms net 0 None"
    by (auto simp: request_def)
  have r0: "retries (HttpClient_new key config) \<noteq> 0"
    by (simp add: HttpClient_new_def num_or_def split: option.splits)
  show ?thesis
    using t0 r0 ex by (simp add: HttpClient_new_def num_or_def request_def)
qed

theorem falsy_config_defaults_witness:
  "timeout (HttpClient_new ''k'' (default_config\<lparr>cfg_timeout := Some 0\<rparr>)) = 30000
   \<and> retries (HttpClient_new ''k'' (default_config\<lparr>cfg_retries := Some 0\<rparr>)) = 3
   \<and> request (HttpClient_new ''k'' (default_config\<lparr>cfg_timeout := Some 0\<rparr>))
        \<lparr>opt_timeout = Some 0\<rparr> (\<lambda>_. AbortError)
       = ([Fetch 0], Inl (SdkError (TimeoutError 30000)))"
proof -
  have t: "timeout (HttpClient_new ''k'' (default_config\<lparr>cfg_timeout := Some 0\<rparr>)) = 30000"
    and r: "retries (HttpClient_new ''k'' (default_config\<lparr>cfg_timeout := Some 0\<rparr>)) = 3"
    by (simp_all add: HttpClient_new_def default_config_def num_or_def)
  have run: "request_loop (HttpClient_new ''k'' (default_config\<lparr>cfg_timeout := Some 0\<rparr>)) 30000
               (\<lambda>_. AbortError) 0 None
             = ([Fetch 0], Inl (SdkError (TimeoutError 30000)))"
    by (simp add: r try_attempt_AbortError no_retry_SdkError
          request_loop_raise[where e = "SdkError (TimeoutError 30000)"])
  show ?thesis
    using falsy_config_defaults[where key = "''k''" and config = default_config
        and c = "HttpClient_new ''k'' (default_config\<lparr>cfg_timeout := Some 0\<rparr>)"
        and options = "\<lparr>opt_timeout = Some 0\<rparr>" and net = "\<lambda>_. AbortError"] t run
    by simp
qed

end
